theory Spec2Isabelle
  imports Main
begin

section \<open>Go values, errors and outcomes\<close>

text \<open>
  A Go \<open>string\<close> and a Go \<open>[]byte\<close> are both sequences of bytes; an Isabelle \<open>char\<close>
  is one byte. The conversions \<open>string(b)\<close> and \<open>[]byte(s)\<close> copy the bytes unchanged.
\<close>

type_synonym bytes = "char list"

definition string_of_bytes :: "bytes \<Rightarrow> string" where
  "string_of_bytes b = b"

definition bytes_of_string :: "string \<Rightarrow> bytes" where
  "bytes_of_string s = s"

text \<open>A Go \<open>error\<close> value, identified by its message; the nil error is \<open>None\<close>.\<close>

datatype error = Err string

text \<open>A call either returns or panics (with the text of the runtime error).\<close>

datatype 'a outcome = Return 'a | Panic string

text \<open>
  The dynamic values an \<open>interface{}\<close> can hold, as far as this package handles them:
  the nil interface, booleans, strings, byte slices, slices of interfaces, and channels
  (a kind of value that has no serialised form).
\<close>

datatype go_value =
    GoNil
  | GoBool bool
  | GoString string
  | GoBytes bytes
  | GoSlice "go_value list"
  | GoChan nat

text \<open>The type assertion \<open>v.(string)\<close>: it panics when \<open>v\<close> does not hold a string.\<close>

fun assert_string :: "go_value \<Rightarrow> string outcome" where
  "assert_string (GoString s) = Return s"
| "assert_string GoNil =
     Panic ''interface conversion: interface {} is nil, not string''"
| "assert_string v =
     Panic ''interface conversion: interface {} is not string''"

section \<open>The standard context package\<close>

text \<open>
  Instants and durations are counted in nanoseconds, as \<open>time.Duration\<close> does.
\<close>

type_synonym time = int
type_synonym duration = int

definition Second :: duration where
  "Second = 1000000000"

datatype ctx =
    Background
  | ValueCtx ctx go_value go_value
  | CancelCtx ctx
  | TimerCtx ctx time

text \<open>\<open>ctx.Value(key)\<close>: the innermost value stored under an equal key, else nil.\<close>

fun ctx_Value :: "ctx \<Rightarrow> go_value \<Rightarrow> go_value" where
  "ctx_Value Background key = GoNil"
| "ctx_Value (ValueCtx parent k v) key = (if k = key then v else ctx_Value parent key)"
| "ctx_Value (CancelCtx parent) key = ctx_Value parent key"
| "ctx_Value (TimerCtx parent d) key = ctx_Value parent key"

fun ctx_Deadline :: "ctx \<Rightarrow> time option" where
  "ctx_Deadline Background = None"
| "ctx_Deadline (ValueCtx parent k v) = ctx_Deadline parent"
| "ctx_Deadline (CancelCtx parent) = ctx_Deadline parent"
| "ctx_Deadline (TimerCtx parent d) = Some d"

definition context_WithValue :: "ctx \<Rightarrow> go_value \<Rightarrow> go_value \<Rightarrow> ctx" where
  "context_WithValue parent key val = ValueCtx parent key val"

text \<open>
  \<open>context.WithDeadline\<close>: when the parent already ends earlier, the child is only a
  cancellable copy of the parent.
\<close>

definition context_WithDeadline :: "ctx \<Rightarrow> time \<Rightarrow> ctx" where
  "context_WithDeadline parent d =
     (case ctx_Deadline parent of
        Some cur \<Rightarrow> if cur < d then CancelCtx parent else TimerCtx parent d
      | None \<Rightarrow> TimerCtx parent d)"

text \<open>\<open>context.WithTimeout(parent, timeout)\<close> at the instant \<open>now\<close>.\<close>

definition context_WithTimeout :: "ctx \<Rightarrow> time \<Rightarrow> duration \<Rightarrow> ctx" where
  "context_WithTimeout parent now timeout = context_WithDeadline parent (now + timeout)"

section \<open>Package nsq\<close>

subsection \<open>Types\<close>

text \<open>
  A consumer function works on the caller's own state \<open>'s\<close>; it returns an error
  (or nil) or panics.
\<close>

type_synonym 's ConsumerFunc = "ctx \<Rightarrow> string \<Rightarrow> 's \<Rightarrow> error option outcome \<times> 's"

record NsqEvent =
  Topic :: string
  Message :: bytes

text \<open>
  The producer handle \<open>*nsq.Producer\<close> is used through its method
  \<open>Publish(topic, body)\<close> alone; \<open>'p\<close> is the state of the broker connection.
\<close>

type_synonym 'p Producer = "string \<Rightarrow> bytes \<Rightarrow> 'p \<Rightarrow> error option \<times> 'p"

record ('p, 'cfg) Client =
  Pub :: "'p Producer"
  Config :: 'cfg
  Lookupd :: string

text \<open>An inbound \<open>*nsq.Message\<close>: its body is all the handler reads.\<close>

record Message_nsq =
  Body :: bytes

subsection \<open>Consume\<close>

text \<open>
  \<open>Consume\<close> returns the pair \<open>(value, err)\<close> or panics; the second component of the
  result is the list of lines it hands to \<open>log.Println\<close>. The first \<open>log.Println\<close>
  evaluates the type assertion before it prints, so a panic leaves no line.
\<close>

definition Consume ::
  "('p, 'cfg) Client \<Rightarrow> ctx \<Rightarrow> string \<Rightarrow> (string \<times> error option) outcome \<times> string list" where
  "Consume c ctx topic =
     (if ctx_Value ctx (GoString topic) \<noteq> GoNil then
        (case assert_string (ctx_Value ctx (GoString topic)) of
           Panic p \<Rightarrow> (Panic p, [])
         | Return s \<Rightarrow> (Return (s, None), [''context value :  '' @ s]))
      else
        (Return ('''', Some (Err (''failed to consume the topic '' @ topic))),
         [''context value :  <nil>'']))"

subsection \<open>Publish\<close>

text \<open>
  The event is a pointer: \<open>None\<close> is the nil pointer. Reading \<open>event.Topic\<close> through a
  nil pointer panics before the producer is called.
\<close>

definition Publish ::
  "('p, 'cfg) Client \<Rightarrow> ctx \<Rightarrow> NsqEvent option \<Rightarrow> 'p \<Rightarrow> error option outcome \<times> 'p" where
  "Publish c ctx event p =
     (case event of
        None \<Rightarrow> (Panic ''runtime error: invalid memory address or nil pointer dereference'', p)
      | Some ev \<Rightarrow>
          (case Pub c (Topic ev) (Message ev) p of
             (err, p') \<Rightarrow> (Return err, p')))"

subsection \<open>RegisterConsumer\<close>

text \<open>
  What one run of the installed handler does: what it returns to the broker client
  (or that it panics), the delays it passed to \<open>message.Requeue\<close>, the lines it
  logged, whether the deferred \<open>cancel\<close> ran, and the caller's state afterwards.
\<close>

record 's HandlerResult =
  returned :: "error option outcome"
  requeued :: "int list"
  logged :: "string list"
  cancelled :: bool
  user_state :: 's

type_synonym 's Handler = "time \<Rightarrow> Message_nsq \<Rightarrow> 's \<Rightarrow> 's HandlerResult"

text \<open>The execution scope the handler builds for one message, at the instant \<open>now\<close>.\<close>

definition handler_ctx :: "string \<Rightarrow> time \<Rightarrow> Message_nsq \<Rightarrow> ctx" where
  "handler_ctx topic now message =
     (let body = string_of_bytes (Body message);
          ctx = context_WithValue Background (GoString topic) (GoString body)
      in context_WithTimeout ctx now (Second * 30))"

text \<open>
  The inner function literal \<open>func() error { cf(ctx, topic); return nil }\<close>: the
  result of \<open>cf\<close> is dropped.
\<close>

definition handler_closure ::
  "'s ConsumerFunc \<Rightarrow> ctx \<Rightarrow> string \<Rightarrow> 's \<Rightarrow> error option outcome \<times> 's" where
  "handler_closure cf ctx topic s =
     (case cf ctx topic s of
        (Panic p, s') \<Rightarrow> (Panic p, s')
      | (Return r, s') \<Rightarrow> (Return None, s'))"

fun error_text :: "error \<Rightarrow> string" where
  "error_text (Err m) = m"

definition handlerFunc :: "string \<Rightarrow> 's ConsumerFunc \<Rightarrow> 's Handler" where
  "handlerFunc topic cf now message s =
     (let ctx = handler_ctx topic now message in
      case handler_closure cf ctx topic s of
        (Panic p, s') \<Rightarrow>
          \<lparr>returned = Panic p, requeued = [], logged = [], cancelled = True,
           user_state = s'\<rparr>
      | (Return err, s') \<Rightarrow>
          (case err of
             Some e \<Rightarrow>
               \<lparr>returned = Return err, requeued = [-1],
                logged = [''Error in handlerFunc: '' @ error_text e], cancelled = True,
                user_state = s'\<rparr>
           | None \<Rightarrow>
               \<lparr>returned = Return None, requeued = [], logged = [], cancelled = True,
                user_state = s'\<rparr>))"

text \<open>
  The consumer object of the client library, reduced to what registration touches.
  \<open>nsq.NewConsumer\<close> and \<open>ConnectToNSQLookupd\<close> belong to the library and may fail;
  they are parameters. \<open>AddHandler\<close> appends the handler.
\<close>

record 's Consumer =
  consumer_topic :: string
  consumer_channel :: string
  handlers :: "'s Handler list"
  lookupds :: "string list"

record ('cfg, 's) nsq_library =
  NewConsumer :: "string \<Rightarrow> string \<Rightarrow> 'cfg \<Rightarrow> error + 's Consumer"
  ConnectToNSQLookupd :: "string \<Rightarrow> 's Consumer \<Rightarrow> error option \<times> 's Consumer"

definition AddHandler :: "'s Handler \<Rightarrow> 's Consumer \<Rightarrow> 's Consumer" where
  "AddHandler h consumer = consumer\<lparr>handlers := handlers consumer @ [h]\<rparr>"

text \<open>
  \<open>RegisterConsumer\<close> returns its error; the second component is the consumer it left
  running, if it created one.
\<close>

definition RegisterConsumer ::
  "('cfg, 's) nsq_library \<Rightarrow> ('p, 'cfg) Client \<Rightarrow> string \<Rightarrow> 's ConsumerFunc
   \<Rightarrow> error option \<times> 's Consumer option" where
  "RegisterConsumer lib c topic cf =
     (case NewConsumer lib topic ''channel'' (Config c) of
        Inl err \<Rightarrow> (Some err, None)
      | Inr consumer \<Rightarrow>
          (let consumer = AddHandler (handlerFunc topic cf) consumer in
           case ConnectToNSQLookupd lib (Lookupd c) consumer of
             (Some err, consumer') \<Rightarrow> (Some err, Some consumer')
           | (None, consumer') \<Rightarrow> (None, Some consumer')))"

section \<open>Package caches\<close>

subsection \<open>The libraries the adapters call\<close>

text \<open>
  \<open>encoding/json\<close>, the memcache client and the redis client are not part of this
  package: the adapters take them as parameters. \<open>json.Unmarshal\<close> is called with two
  kinds of target, a \<open>*SingleDataRecord\<close> (any value) and a \<open>*MultipleDataRecord\<close>
  (a slice), hence two decoding functions.
\<close>

record json_package =
  json_Marshal :: "go_value \<Rightarrow> error + bytes"
  json_Unmarshal_interface :: "bytes \<Rightarrow> error + go_value"
  json_Unmarshal_slice :: "bytes \<Rightarrow> error + go_value list"

record Item =
  Key :: string
  Value :: bytes

text \<open>\<open>'m\<close> is the state of the memcache server, \<open>'r\<close> that of the redis server.\<close>

record 'm memcache_Client =
  memcache_Set :: "Item \<Rightarrow> 'm \<Rightarrow> error option \<times> 'm"
  memcache_Get :: "string \<Rightarrow> 'm \<Rightarrow> (error + Item) \<times> 'm"

text \<open>
  \<open>client.Set(ctx, key, value, expiration).Err()\<close> and \<open>client.Get(ctx, key).Result()\<close>.
\<close>

record 'r redis_Client =
  redis_Set :: "ctx \<Rightarrow> string \<Rightarrow> go_value \<Rightarrow> duration \<Rightarrow> 'r \<Rightarrow> error option \<times> 'r"
  redis_Get :: "ctx \<Rightarrow> string \<Rightarrow> 'r \<Rightarrow> (error + string) \<times> 'r"

subsection \<open>The Cache interface and the adapters\<close>

type_synonym SingleDataRecord = go_value
type_synonym MultipleDataRecord = "go_value list"

record 'st Cache =
  SetSingle :: "ctx \<Rightarrow> string \<Rightarrow> SingleDataRecord \<Rightarrow> 'st \<Rightarrow> error option \<times> 'st"
  GetSingle :: "ctx \<Rightarrow> string \<Rightarrow> 'st \<Rightarrow> (error + SingleDataRecord) \<times> 'st"
  SetMultiple :: "ctx \<Rightarrow> string \<Rightarrow> MultipleDataRecord \<Rightarrow> 'st \<Rightarrow> error option \<times> 'st"
  GetMultiple :: "ctx \<Rightarrow> string \<Rightarrow> 'st \<Rightarrow> (error + MultipleDataRecord) \<times> 'st"

record 'r redisCache =
  redis_client :: "'r redis_Client"

record 'm memcacheCache =
  memcache_client :: "'m memcache_Client"

record 'st cacheStruct =
  embedded_Cache :: "'st Cache"

definition memcacheCache_SetSingle ::
  "json_package \<Rightarrow> 'm memcacheCache \<Rightarrow> ctx \<Rightarrow> string \<Rightarrow> SingleDataRecord \<Rightarrow> 'm
   \<Rightarrow> error option \<times> 'm" where
  "memcacheCache_SetSingle json m ctx key val st =
     (case json_Marshal json val of
        Inl err \<Rightarrow> (Some err, st)
      | Inr result \<Rightarrow> memcache_Set (memcache_client m) \<lparr>Key = key, Value = result\<rparr> st)"

definition memcacheCache_GetSingle ::
  "'m memcacheCache \<Rightarrow> ctx \<Rightarrow> string \<Rightarrow> 'm \<Rightarrow> (error + SingleDataRecord) \<times> 'm" where
  "memcacheCache_GetSingle m ctx key st =
     (case memcache_Get (memcache_client m) key st of
        (Inl err, st') \<Rightarrow> (Inl err, st')
      | (Inr resp, st') \<Rightarrow> (let response = Value resp in (Inr (GoBytes response), st')))"

definition memcacheCache_SetMultiple ::
  "json_package \<Rightarrow> 'm memcacheCache \<Rightarrow> ctx \<Rightarrow> string \<Rightarrow> MultipleDataRecord \<Rightarrow> 'm
   \<Rightarrow> error option \<times> 'm" where
  "memcacheCache_SetMultiple json m ctx key val st =
     (case json_Marshal json (GoSlice val) of
        Inl err \<Rightarrow> (Some err, st)
      | Inr result \<Rightarrow> memcache_Set (memcache_client m) \<lparr>Key = key, Value = result\<rparr> st)"

definition memcacheCache_GetMultiple ::
  "json_package \<Rightarrow> 'm memcacheCache \<Rightarrow> ctx \<Rightarrow> string \<Rightarrow> 'm
   \<Rightarrow> (error + MultipleDataRecord) \<times> 'm" where
  "memcacheCache_GetMultiple json m ctx key st =
     (case memcache_Get (memcache_client m) key st of
        (Inl err, st') \<Rightarrow> (Inl err, st')
      | (Inr resp, st') \<Rightarrow>
          (let response = Value resp in
           case json_Unmarshal_slice json response of
             Inl err \<Rightarrow> (Inl err, st')
           | Inr result \<Rightarrow> (Inr result, st')))"

definition redisCache_SetSingle ::
  "'r redisCache \<Rightarrow> ctx \<Rightarrow> string \<Rightarrow> SingleDataRecord \<Rightarrow> 'r \<Rightarrow> error option \<times> 'r" where
  "redisCache_SetSingle r ctx key val st = redis_Set (redis_client r) ctx key val 0 st"

definition redisCache_GetSingle ::
  "json_package \<Rightarrow> 'r redisCache \<Rightarrow> ctx \<Rightarrow> string \<Rightarrow> 'r
   \<Rightarrow> (error + SingleDataRecord) \<times> 'r" where
  "redisCache_GetSingle json r ctx key st =
     (case redis_Get (redis_client r) ctx key st of
        (Inl err, st') \<Rightarrow> (Inl err, st')
      | (Inr resultStr, st') \<Rightarrow>
          (case json_Unmarshal_interface json (bytes_of_string resultStr) of
             Inl err \<Rightarrow> (Inl err, st')
           | Inr result \<Rightarrow> (Inr result, st')))"

definition redisCache_SetMultiple ::
  "'r redisCache \<Rightarrow> ctx \<Rightarrow> string \<Rightarrow> MultipleDataRecord \<Rightarrow> 'r \<Rightarrow> error option \<times> 'r" where
  "redisCache_SetMultiple r ctx key val st =
     redis_Set (redis_client r) ctx key (GoSlice val) 0 st"

definition redisCache_GetMultiple ::
  "json_package \<Rightarrow> 'r redisCache \<Rightarrow> ctx \<Rightarrow> string \<Rightarrow> 'r
   \<Rightarrow> (error + MultipleDataRecord) \<times> 'r" where
  "redisCache_GetMultiple json r ctx key st =
     (case redis_Get (redis_client r) ctx key st of
        (Inl err, st') \<Rightarrow> (Inl err, st')
      | (Inr resultStr, st') \<Rightarrow>
          (case json_Unmarshal_slice json (bytes_of_string resultStr) of
             Inl err \<Rightarrow> (Inl err, st')
           | Inr result \<Rightarrow> (Inr result, st')))"

text \<open>The adapters and the wrapper as values of the interface.\<close>

definition redisCache_Cache :: "json_package \<Rightarrow> 'r redisCache \<Rightarrow> 'r Cache" where
  "redisCache_Cache json r =
     \<lparr>SetSingle = redisCache_SetSingle r, GetSingle = redisCache_GetSingle json r,
      SetMultiple = redisCache_SetMultiple r, GetMultiple = redisCache_GetMultiple json r\<rparr>"

definition memcacheCache_Cache :: "json_package \<Rightarrow> 'm memcacheCache \<Rightarrow> 'm Cache" where
  "memcacheCache_Cache json m =
     \<lparr>SetSingle = memcacheCache_SetSingle json m, GetSingle = memcacheCache_GetSingle m,
      SetMultiple = memcacheCache_SetMultiple json m,
      GetMultiple = memcacheCache_GetMultiple json m\<rparr>"

text \<open>
  \<open>cacheStruct\<close> embeds the interface, so its four methods are the promoted methods of
  the embedded value.
\<close>

definition cacheStruct_Cache :: "'st cacheStruct \<Rightarrow> 'st Cache" where
  "cacheStruct_Cache w =
     \<lparr>SetSingle = (\<lambda>ctx key val. SetSingle (embedded_Cache w) ctx key val),
      GetSingle = (\<lambda>ctx key. GetSingle (embedded_Cache w) ctx key),
      SetMultiple = (\<lambda>ctx key val. SetMultiple (embedded_Cache w) ctx key val),
      GetMultiple = (\<lambda>ctx key. GetMultiple (embedded_Cache w) ctx key)\<rparr>"

definition NewCache :: "'st Cache \<Rightarrow> 'st Cache" where
  "NewCache cache = cacheStruct_Cache \<lparr>embedded_Cache = cache\<rparr>"

subsection \<open>What the round trips expect of the libraries\<close>

text \<open>
  A store returns what was last set: after a \<open>Set\<close> that succeeded, \<open>Get\<close> of the same
  key succeeds with the value that was set.
\<close>

definition memcache_get_after_set :: "'m memcache_Client \<Rightarrow> bool" where
  "memcache_get_after_set cl \<longleftrightarrow>
     (\<forall>item st st'. memcache_Set cl item st = (None, st') \<longrightarrow>
        (\<exists>resp st''. memcache_Get cl (Key item) st' = (Inr resp, st'') \<and>
           Value resp = Value item))"

text \<open>
  A JSON library decodes an encoded slice element by element: the decoded slice has
  as many elements, and the element at each position is the decoding of the encoding
  of the element at that position.
\<close>

definition json_decodes_slices :: "json_package \<Rightarrow> bool" where
  "json_decodes_slices json \<longleftrightarrow>
     (\<forall>s b. json_Marshal json (GoSlice s) = Inr b \<longrightarrow>
        (\<exists>s'. json_Unmarshal_slice json b = Inr s' \<and> length s' = length s \<and>
           (\<forall>i<length s. \<exists>e. json_Marshal json (s ! i) = Inr e \<and>
              json_Unmarshal_interface json e = Inr (s' ! i))))"

section \<open>In-memory stand-ins for the libraries\<close>

text \<open>
  Closed instances of the parameters above, for evaluating the package on concrete
  inputs, and for the properties that depend on what the JSON decoder and the redis
  client do.
\<close>

subsection \<open>Broker\<close>

text \<open>
  A producer whose state is a flag (is a broker node reachable) and the list of
  messages sent so far.
\<close>

definition producer_stub :: "(bool \<times> (string \<times> bytes) list) Producer" where
  "producer_stub topic body p =
     (if fst p then (None, (fst p, snd p @ [(topic, body)]))
      else (Some (Err ''dial tcp: connection refused''), p))"

definition client_stub :: "(bool \<times> (string \<times> bytes) list, unit) Client" where
  "client_stub = \<lparr>Pub = producer_stub, Config = (), Lookupd = ''127.0.0.1:4161''\<rparr>"

text \<open>A consumer function that always reports a failure.\<close>

definition failing_cf :: "nat ConsumerFunc" where
  "failing_cf ctx topic n = (Return (Some (Err ''processing failed'')), Suc n)"

text \<open>
  A consumer function that fetches the body with \<open>Consume\<close> and appends it to the
  list of bodies seen so far.
\<close>

definition recording_cf :: "string list ConsumerFunc" where
  "recording_cf ctx topic seen =
     (case fst (Consume client_stub ctx topic) of
        Panic p \<Rightarrow> (Panic p, seen)
      | Return (v, Some err) \<Rightarrow> (Return (Some err), seen)
      | Return (v, None) \<Rightarrow> (Return None, seen @ [v]))"

subsection \<open>Stores\<close>

text \<open>A memcache server as an association list, newest entry first.\<close>

definition memcache_stub :: "(string \<times> bytes) list memcache_Client" where
  "memcache_stub =
     \<lparr>memcache_Set = (\<lambda>item st. (None, (Key item, Value item) # st)),
      memcache_Get = (\<lambda>key st.
        case map_of st key of
          None \<Rightarrow> (Inl (Err ''memcache: cache miss''), st)
        | Some v \<Rightarrow> (Inr \<lparr>Key = key, Value = v\<rparr>, st))\<rparr>"

text \<open>
  A redis server as an association list. The client writes a nil, string, byte-slice
  or boolean argument as bytes by itself, and refuses a value of any other kind
  (here: a slice or a channel), which would have to implement
  \<open>encoding.BinaryMarshaler\<close>.
\<close>

fun redis_stub_arg :: "go_value \<Rightarrow> error + string" where
  "redis_stub_arg GoNil = Inr []"
| "redis_stub_arg (GoString s) = Inr s"
| "redis_stub_arg (GoBytes b) = Inr (string_of_bytes b)"
| "redis_stub_arg (GoBool b) = Inr (if b then ''1'' else ''0'')"
| "redis_stub_arg v =
     Inl (Err ''redis: cannot marshal value (implement encoding.BinaryMarshaler)'')"

definition redis_stub :: "(string \<times> string) list redis_Client" where
  "redis_stub =
     \<lparr>redis_Set = (\<lambda>ctx key val expiration st.
        case redis_stub_arg val of
          Inl err \<Rightarrow> (Some err, st)
        | Inr s \<Rightarrow> (None, (key, s) # st)),
      redis_Get = (\<lambda>ctx key st.
        case map_of st key of
          None \<Rightarrow> (Inl (Err ''redis: nil''), st)
        | Some s \<Rightarrow> (Inr s, st))\<rparr>"

subsection \<open>JSON\<close>

text \<open>
  The fragment of JSON built from \<open>null\<close>, \<open>true\<close>, \<open>false\<close> and arrays. Encoding
  refuses a channel, as \<open>encoding/json\<close> does (unsupported type); strings and byte
  slices lie outside the fragment and are refused too. Decoding refuses every text
  that is not a document of the fragment.
\<close>

fun join_commas :: "string list \<Rightarrow> string" where
  "join_commas [] = []"
| "join_commas [t] = t"
| "join_commas (t # u # us) = t @ '','' @ join_commas (u # us)"

fun collect :: "(error + 'a) list \<Rightarrow> error + 'a list" where
  "collect [] = Inr []"
| "collect (Inl err # rs) = Inl err"
| "collect (Inr x # rs) = (case collect rs of Inl err \<Rightarrow> Inl err | Inr xs \<Rightarrow> Inr (x # xs))"

fun json_stub_Marshal :: "go_value \<Rightarrow> error + bytes" where
  "json_stub_Marshal GoNil = Inr ''null''"
| "json_stub_Marshal (GoBool b) = Inr (if b then ''true'' else ''false'')"
| "json_stub_Marshal (GoSlice vs) =
     (case collect (map json_stub_Marshal vs) of
        Inl err \<Rightarrow> Inl err
      | Inr ts \<Rightarrow> Inr (''['' @ join_commas ts @ '']''))"
| "json_stub_Marshal (GoChan n) = Inl (Err ''json: unsupported type: chan int'')"
| "json_stub_Marshal (GoString s) = Inl (Err ''json stand-in: string outside the fragment'')"
| "json_stub_Marshal (GoBytes b) = Inl (Err ''json stand-in: bytes outside the fragment'')"

datatype token = TOpen | TClose | TComma | TLiteral go_value

fun json_stub_lex :: "string \<Rightarrow> token list option" where
  "json_stub_lex [] = Some []"
| "json_stub_lex (c # cs) =
     (if c = CHR '' '' \<or> c = CHR 0x09 \<or> c = CHR 0x0A \<or> c = CHR 0x0D then json_stub_lex cs
      else if c = CHR ''['' then map_option ((#) TOpen) (json_stub_lex cs)
      else if c = CHR '']'' then map_option ((#) TClose) (json_stub_lex cs)
      else if c = CHR '','' then map_option ((#) TComma) (json_stub_lex cs)
      else if take 4 (c # cs) = ''null''
        then map_option ((#) (TLiteral GoNil)) (json_stub_lex (drop 3 cs))
      else if take 4 (c # cs) = ''true''
        then map_option ((#) (TLiteral (GoBool True))) (json_stub_lex (drop 3 cs))
      else if take 5 (c # cs) = ''false''
        then map_option ((#) (TLiteral (GoBool False))) (json_stub_lex (drop 4 cs))
      else None)"

text \<open>
  The parser keeps the stack of the arrays that are open (each with its elements so
  far, last first) and what it expects next.
\<close>

datatype expect = ExpectValue | ExpectValueOrClose | ExpectCommaOrClose | Finished go_value

fun push_value :: "go_value \<Rightarrow> go_value list list \<Rightarrow> go_value list list \<times> expect" where
  "push_value v [] = ([], Finished v)"
| "push_value v (a # stack) = ((v # a) # stack, ExpectCommaOrClose)"

fun json_stub_step ::
  "token \<Rightarrow> go_value list list \<times> expect \<Rightarrow> (go_value list list \<times> expect) option" where
  "json_stub_step (TLiteral v) (stack, ExpectValue) = Some (push_value v stack)"
| "json_stub_step (TLiteral v) (stack, ExpectValueOrClose) = Some (push_value v stack)"
| "json_stub_step TOpen (stack, ExpectValue) = Some ([] # stack, ExpectValueOrClose)"
| "json_stub_step TOpen (stack, ExpectValueOrClose) = Some ([] # stack, ExpectValueOrClose)"
| "json_stub_step TClose (a # stack, ExpectValueOrClose) =
     Some (push_value (GoSlice (rev a)) stack)"
| "json_stub_step TClose (a # stack, ExpectCommaOrClose) =
     Some (push_value (GoSlice (rev a)) stack)"
| "json_stub_step TComma (stack, ExpectCommaOrClose) = Some (stack, ExpectValue)"
| "json_stub_step t cfg = None"

fun json_stub_parse :: "token list \<Rightarrow> go_value list list \<times> expect \<Rightarrow> go_value option" where
  "json_stub_parse [] (stack, Finished v) = Some v"
| "json_stub_parse [] cfg = None"
| "json_stub_parse (t # ts) cfg =
     (case json_stub_step t cfg of
        None \<Rightarrow> None
      | Some cfg' \<Rightarrow> json_stub_parse ts cfg')"

definition json_stub_Unmarshal_interface :: "bytes \<Rightarrow> error + go_value" where
  "json_stub_Unmarshal_interface text =
     (case json_stub_lex text of
        None \<Rightarrow> Inl (Err ''json: invalid character'')
      | Some ts \<Rightarrow>
          (case json_stub_parse ts ([], ExpectValue) of
             None \<Rightarrow> Inl (Err ''json: invalid character'')
           | Some v \<Rightarrow> Inr v))"

text \<open>
  Decoding into a nil slice: an array fills it, \<open>null\<close> leaves it nil (no elements),
  a boolean does not fit.
\<close>

definition json_stub_Unmarshal_slice :: "bytes \<Rightarrow> error + go_value list" where
  "json_stub_Unmarshal_slice text =
     (case json_stub_Unmarshal_interface text of
        Inl err \<Rightarrow> Inl err
      | Inr (GoSlice vs) \<Rightarrow> Inr vs
      | Inr GoNil \<Rightarrow> Inr []
      | Inr v \<Rightarrow>
          Inl (Err ''json: cannot unmarshal into Go value of type caches.MultipleDataRecord''))"

definition json_stub :: json_package where
  "json_stub =
     \<lparr>json_Marshal = json_stub_Marshal,
      json_Unmarshal_interface = json_stub_Unmarshal_interface,
      json_Unmarshal_slice = json_stub_Unmarshal_slice\<rparr>"

text \<open>The tokens of the encoding of a value.\<close>

fun separated :: "token list list \<Rightarrow> token list" where
  "separated [] = []"
| "separated [ts] = ts"
| "separated (ts # us # uss) = ts @ TComma # separated (us # uss)"

fun tokens_of :: "go_value \<Rightarrow> token list" where
  "tokens_of (GoSlice vs) = TOpen # separated (map tokens_of vs) @ [TClose]"
| "tokens_of v = [TLiteral v]"

definition memcacheCache_stub :: "(string \<times> bytes) list memcacheCache" where
  "memcacheCache_stub = \<lparr>memcache_client = memcache_stub\<rparr>"

definition redisCache_stub :: "(string \<times> string) list redisCache" where
  "redisCache_stub = \<lparr>redis_client = redis_stub\<rparr>"

section \<open>Properties of package nsq\<close>

subsection \<open>The handler that RegisterConsumer installs\<close>

text \<open>
  When the library creates the consumer, the handler appended to it is
  \<open>handlerFunc topic cf\<close>, on the channel named \<open>channel\<close>; a failure of either
  library call is returned as it is.
\<close>

lemma RegisterConsumer_installs:
  assumes "NewConsumer lib topic ''channel'' (Config c) = Inr consumer"
  shows "RegisterConsumer lib c topic cf =
           (fst (ConnectToNSQLookupd lib (Lookupd c)
                   (consumer\<lparr>handlers := handlers consumer @ [handlerFunc topic cf]\<rparr>)),
            Some (snd (ConnectToNSQLookupd lib (Lookupd c)
                   (consumer\<lparr>handlers := handlers consumer @ [handlerFunc topic cf]\<rparr>))))"
  using assms
  by (simp add: RegisterConsumer_def AddHandler_def Let_def split: prod.splits option.splits)

lemma RegisterConsumer_creation_fails:
  assumes "NewConsumer lib topic ''channel'' (Config c) = Inl err"
  shows "RegisterConsumer lib c topic cf = (Some err, None)"
  using assms by (simp add: RegisterConsumer_def)

lemma handler_closure_returns_nil:
  "fst (handler_closure cf ctx topic s) \<noteq> Return (Some e)"
  by (simp add: handler_closure_def split: prod.splits outcome.splits)

lemma handler_ctx_Value:
  "ctx_Value (handler_ctx topic now message) (GoString topic) =
     GoString (string_of_bytes (Body message))"
  by (simp add: handler_ctx_def context_WithValue_def context_WithTimeout_def
      context_WithDeadline_def Let_def)

lemma handler_ctx_Deadline:
  "ctx_Deadline (handler_ctx topic now message) = Some (now + 30 * Second)"
  by (simp add: handler_ctx_def context_WithValue_def context_WithTimeout_def
      context_WithDeadline_def Let_def)

text \<open>
  C1. Whatever the processing function returns, the handler returns nil to the broker
  client and never calls \<open>message.Requeue\<close>: the error of the processing function is
  dropped by the inner function literal, so the requeue branch is not reached through
  it. (A panic of the processing function passes through the handler; it does not
  reach the requeue branch either.)
\<close>

theorem handler_discards_consumer_error:
  "requeued (handlerFunc topic cf now message s) = [] \<and>
   logged (handlerFunc topic cf now message s) = [] \<and>
   (fst (cf (handler_ctx topic now message) topic s) = Return r \<longrightarrow>
      returned (handlerFunc topic cf now message s) = Return None)"
  by (simp add: handlerFunc_def handler_closure_def Let_def
      split: prod.splits outcome.splits option.splits)

theorem handler_discards_consumer_error_witness:
  "fst (failing_cf (handler_ctx ''orders'' 0 \<lparr>Body = ''order-42''\<rparr>) ''orders'' 0) =
     Return (Some (Err ''processing failed'')) \<and>
   returned (handlerFunc ''orders'' failing_cf 0 \<lparr>Body = ''order-42''\<rparr> 0) = Return None \<and>
   requeued (handlerFunc ''orders'' failing_cf 0 \<lparr>Body = ''order-42''\<rparr> 0) = []"
  using handler_discards_consumer_error
    [of "''orders''" failing_cf 0 "\<lparr>Body = ''order-42''\<rparr>" 0 "Some (Err ''processing failed'')"]
  by (simp add: failing_cf_def)

text \<open>
  C3. For a message with body \<open>b\<close> the handler runs the processing function once: the
  caller's state after the handler is the state after one call of \<open>cf\<close> on the
  handler's scope and the topic. That scope carries \<open>string(b)\<close> under the topic name,
  its deadline is 30 seconds after the instant the handler built it, and \<open>Consume\<close> on
  it returns \<open>string(b)\<close> with a nil error.
\<close>

theorem handler_passes_body_in_scope:
  "user_state (handlerFunc topic cf now message s) =
     snd (cf (handler_ctx topic now message) topic s) \<and>
   ctx_Value (handler_ctx topic now message) (GoString topic) =
     GoString (string_of_bytes (Body message)) \<and>
   ctx_Deadline (handler_ctx topic now message) = Some (now + 30 * Second) \<and>
   fst (Consume c (handler_ctx topic now message) topic) =
     Return (string_of_bytes (Body message), None)"
  by (simp add: handler_ctx_Value handler_ctx_Deadline Consume_def)
     (simp add: handlerFunc_def handler_closure_def Let_def
        split: prod.splits outcome.splits option.splits)

theorem handler_passes_body_in_scope_witness:
  "user_state (handlerFunc ''orders'' recording_cf 7 \<lparr>Body = ''order-42''\<rparr> []) = [''order-42''] \<and>
   ctx_Deadline (handler_ctx ''orders'' 7 \<lparr>Body = ''order-42''\<rparr>) = Some 30000000007 \<and>
   fst (Consume client_stub (handler_ctx ''orders'' 7 \<lparr>Body = ''order-42''\<rparr>) ''orders'') =
     Return (''order-42'', None)"
  using handler_passes_body_in_scope
    [of "''orders''" recording_cf 7 "\<lparr>Body = ''order-42''\<rparr>" "[]" client_stub]
  by (simp add: recording_cf_def string_of_bytes_def Second_def)

subsection \<open>Consume\<close>

text \<open>
  C4. When the scope carries a string under the topic key, \<open>Consume\<close> returns that
  string and a nil error. When it carries nothing under the topic key, \<open>Consume\<close>
  returns the empty string and the error "failed to consume the topic ...". A value
  returned with a nil error is always the string the scope carries.
\<close>

theorem Consume_value_or_error:
  "(ctx_Value ctx (GoString topic) = GoString s \<longrightarrow>
      fst (Consume c ctx topic) = Return (s, None)) \<and>
   (ctx_Value ctx (GoString topic) = GoNil \<longrightarrow>
      fst (Consume c ctx topic) =
        Return ('''', Some (Err (''failed to consume the topic '' @ topic)))) \<and>
   (fst (Consume c ctx topic) = Return (v, None) \<longrightarrow>
      ctx_Value ctx (GoString topic) = GoString v)"
  by (cases "ctx_Value ctx (GoString topic)") (simp_all add: Consume_def)

theorem Consume_value_or_error_witness:
  "ctx_Value (ValueCtx Background (GoString ''orders'') (GoString ''order-42''))
     (GoString ''orders'') = GoString ''order-42'' \<and>
   fst (Consume client_stub (ValueCtx Background (GoString ''orders'') (GoString ''order-42''))
     ''orders'') = Return (''order-42'', None) \<and>
   ctx_Value (ValueCtx Background (GoString ''orders'') (GoString ''order-42''))
     (GoString ''payments'') = GoNil \<and>
   fst (Consume client_stub (ValueCtx Background (GoString ''orders'') (GoString ''order-42''))
     ''payments'') = Return ('''', Some (Err ''failed to consume the topic payments''))"
  using Consume_value_or_error
    [of "ValueCtx Background (GoString ''orders'') (GoString ''order-42'')" "''orders''"
        "''order-42''" client_stub "''order-42''"]
    Consume_value_or_error
    [of "ValueCtx Background (GoString ''orders'') (GoString ''order-42'')" "''payments''"
        "''''" client_stub "''''"]
  by simp

text \<open>
  C9. When the scope carries, under the topic key, a value that is neither nil nor a
  string, \<open>Consume\<close> panics on the type assertion and returns nothing. \<open>Consume\<close>
  returns exactly when the value under the topic key is nil or a string.
\<close>

theorem Consume_panics_on_non_string:
  "(ctx_Value ctx (GoString topic) \<noteq> GoNil \<and>
    (\<forall>s. ctx_Value ctx (GoString topic) \<noteq> GoString s) \<longrightarrow>
      Consume c ctx topic =
        (Panic ''interface conversion: interface {} is not string'', [])) \<and>
   ((\<exists>r. fst (Consume c ctx topic) = Return r) \<longleftrightarrow>
      (ctx_Value ctx (GoString topic) = GoNil \<or>
       (\<exists>s. ctx_Value ctx (GoString topic) = GoString s)))"
  by (cases "ctx_Value ctx (GoString topic)") (simp_all add: Consume_def)

theorem Consume_panics_on_non_string_witness:
  "ctx_Value (ValueCtx Background (GoString ''orders'') (GoBool True)) (GoString ''orders'')
     \<noteq> GoNil \<and>
   (\<forall>s. ctx_Value (ValueCtx Background (GoString ''orders'') (GoBool True))
      (GoString ''orders'') \<noteq> GoString s) \<and>
   Consume client_stub (ValueCtx Background (GoString ''orders'') (GoBool True)) ''orders'' =
     (Panic ''interface conversion: interface {} is not string'', [])"
  using Consume_panics_on_non_string
    [of "ValueCtx Background (GoString ''orders'') (GoBool True)" "''orders''" client_stub]
  by simp

subsection \<open>Publish\<close>

text \<open>
  C8. For a non-nil event, \<open>Publish\<close> calls the producer once with the topic and the
  message of the event: the connection state afterwards is the state after that one
  call, and what \<open>Publish\<close> returns is what the call returned, so an error is returned
  exactly when the send fails, and it is that error.
\<close>

theorem Publish_propagates_producer_error:
  "Publish c ctx (Some ev) p =
     (Return (fst (Pub c (Topic ev) (Message ev) p)), snd (Pub c (Topic ev) (Message ev) p)) \<and>
   (fst (Publish c ctx (Some ev) p) = Return (Some err) \<longleftrightarrow>
      fst (Pub c (Topic ev) (Message ev) p) = Some err)"
  by (simp add: Publish_def split: prod.splits)

theorem Publish_propagates_producer_error_witness:
  "Publish client_stub Background (Some \<lparr>Topic = ''orders'', Message = ''order-42''\<rparr>) (True, []) =
     (Return None, (True, [(''orders'', ''order-42'')])) \<and>
   Publish client_stub Background (Some \<lparr>Topic = ''orders'', Message = ''order-42''\<rparr>) (False, []) =
     (Return (Some (Err ''dial tcp: connection refused'')), (False, []))"
  using Publish_propagates_producer_error
    [of client_stub Background "\<lparr>Topic = ''orders'', Message = ''order-42''\<rparr>" "(True, [])"]
    Publish_propagates_producer_error
    [of client_stub Background "\<lparr>Topic = ''orders'', Message = ''order-42''\<rparr>" "(False, [])"]
  by (simp add: client_stub_def producer_stub_def)

text \<open>
  C10. For a nil event, \<open>Publish\<close> panics on the nil pointer and returns no error; the
  producer is not called.
\<close>

theorem Publish_nil_event_panics:
  "Publish c ctx None p =
     (Panic ''runtime error: invalid memory address or nil pointer dereference'', p)"
  by (simp add: Publish_def)

theorem Publish_nil_event_panics_witness:
  "Publish client_stub Background None (True, []) =
     (Panic ''runtime error: invalid memory address or nil pointer dereference'', (True, []))"
  using Publish_nil_event_panics [of client_stub Background "(True, [])"]
  by simp

section \<open>Properties of the JSON stand-in\<close>

text \<open>
  Decoding inverts encoding on every value the stand-in encodes. The proof follows
  the two stages of the decoder: the lexer reads the encoding of a value as the
  tokens of that value, and the parser reads these tokens as the value.
\<close>

lemma collect_Cons_Inr:
  "collect (r # rs) = Inr ys \<longleftrightarrow> (\<exists>x xs. r = Inr x \<and> collect rs = Inr xs \<and> ys = x # xs)"
  by (cases r) (auto split: sum.splits)

lemma collect_map_Inr_length:
  "collect (map f vs) = Inr ts \<Longrightarrow> length ts = length vs"
  by (induction vs arbitrary: ts) (auto simp: collect_Cons_Inr)

lemma collect_map_Inr_member:
  "collect (map f vs) = Inr ts \<Longrightarrow> v \<in> set vs \<Longrightarrow> \<exists>b. f v = Inr b"
  by (induction vs arbitrary: ts) (auto simp: collect_Cons_Inr)

lemma append_singleton_fun: "(@) [x] = (#) x"
  by (rule ext) simp

lemma lex_elements:
  assumes "\<And>v bs rest. v \<in> set vs \<Longrightarrow> json_stub_Marshal v = Inr bs \<Longrightarrow>
             json_stub_lex (bs @ rest) = map_option ((@) (tokens_of v)) (json_stub_lex rest)"
      and "collect (map json_stub_Marshal vs) = Inr ts"
  shows "json_stub_lex (join_commas ts @ rest) =
           map_option ((@) (separated (map tokens_of vs))) (json_stub_lex rest)"
  using assms
proof (induction vs arbitrary: ts rule: induct_list012)
  case 1
  then show ?case by (cases "json_stub_lex rest") simp_all
next
  case (2 v)
  then obtain b where "json_stub_Marshal v = Inr b" "ts = [b]"
    by (auto simp: collect_Cons_Inr)
  with 2(1) [of v b rest] show ?case by simp
next
  case (3 v w ws)
  from 3(4) obtain b us where b: "json_stub_Marshal v = Inr b"
    and us: "collect (map json_stub_Marshal (w # ws)) = Inr us" and ts: "ts = b # us"
    by (auto simp: collect_Cons_Inr)
  from us obtain u us' where us': "us = u # us'"
    by (auto simp: collect_Cons_Inr)
  have tail: "json_stub_lex (join_commas us @ rest) =
      map_option ((@) (separated (map tokens_of (w # ws)))) (json_stub_lex rest)"
    using 3(2) [OF _ us] 3(3) by simp
  have "json_stub_lex (join_commas ts @ rest) =
      json_stub_lex (b @ (CHR '','' # join_commas us @ rest))"
    by (simp add: ts us')
  also have "\<dots> = map_option ((@) (tokens_of v))
      (json_stub_lex (CHR '','' # join_commas us @ rest))"
    using 3(3) [of v b] b by simp
  also have "\<dots> = map_option ((@) (tokens_of v))
      (map_option ((#) TComma) (json_stub_lex (join_commas us @ rest)))"
    by simp
  also have "\<dots> =
      map_option ((@) (separated (map tokens_of (v # w # ws)))) (json_stub_lex rest)"
    unfolding tail by (cases "json_stub_lex rest") simp_all
  finally show ?case .
qed

lemma lex_Marshal:
  "json_stub_Marshal v = Inr bs \<Longrightarrow>
     json_stub_lex (bs @ rest) = map_option ((@) (tokens_of v)) (json_stub_lex rest)"
proof (induction v arbitrary: bs rest)
  case (GoSlice vs)
  from GoSlice.prems obtain ts where ts: "collect (map json_stub_Marshal vs) = Inr ts"
    and bs: "bs = ''['' @ join_commas ts @ '']''"
    by (auto split: sum.splits)
  have "json_stub_lex (join_commas ts @ ('']'' @ rest)) =
      map_option ((@) (separated (map tokens_of vs))) (json_stub_lex ('']'' @ rest))"
    by (rule lex_elements [OF _ ts]) (rule GoSlice.IH)
  then show ?case
    unfolding bs by (cases "json_stub_lex rest") simp_all
qed (auto split: if_splits simp: append_singleton_fun)

lemma parse_elements:
  assumes "\<And>v ts stack e. v \<in> set vs \<Longrightarrow> e = ExpectValue \<or> e = ExpectValueOrClose \<Longrightarrow>
             json_stub_parse (tokens_of v @ ts) (stack, e) =
               json_stub_parse ts (push_value v stack)"
      and "vs \<noteq> []"
      and "e = ExpectValue \<or> e = ExpectValueOrClose"
  shows "json_stub_parse (separated (map tokens_of vs) @ ts) (a # stack, e) =
           json_stub_parse ts ((rev vs @ a) # stack, ExpectCommaOrClose)"
  using assms
proof (induction vs arbitrary: a e rule: induct_list012)
  case 1
  then show ?case by simp
next
  case (2 v)
  from 2(1) [of v e ts "a # stack"] 2(3) show ?case by simp
next
  case (3 v w ws)
  have "json_stub_parse (separated (map tokens_of (v # w # ws)) @ ts) (a # stack, e) =
      json_stub_parse (tokens_of v @ (TComma # separated (map tokens_of (w # ws)) @ ts))
        (a # stack, e)"
    by simp
  also have "\<dots> = json_stub_parse (TComma # separated (map tokens_of (w # ws)) @ ts)
      ((v # a) # stack, ExpectCommaOrClose)"
    using 3(3) [of v e _ "a # stack"] 3(5) by simp
  also have "\<dots> = json_stub_parse (separated (map tokens_of (w # ws)) @ ts)
      ((v # a) # stack, ExpectValue)"
    by simp
  also have "\<dots> = json_stub_parse ts ((rev (w # ws) @ v # a) # stack, ExpectCommaOrClose)"
    using 3(2) [of ExpectValue "v # a"] 3(3) by simp
  finally show ?case by simp
qed

lemma parse_tokens_of:
  assumes "json_stub_Marshal v = Inr bs"
      and "e = ExpectValue \<or> e = ExpectValueOrClose"
  shows "json_stub_parse (tokens_of v @ ts) (stack, e) = json_stub_parse ts (push_value v stack)"
  using assms
proof (induction v arbitrary: bs ts stack e)
  case (GoSlice vs)
  from GoSlice.prems obtain us where us: "collect (map json_stub_Marshal vs) = Inr us"
    by (auto split: sum.splits)
  show ?case
  proof (cases vs)
    case Nil
    with GoSlice.prems(2) show ?thesis by auto
  next
    case (Cons w ws)
    have opened: "json_stub_parse (tokens_of (GoSlice vs) @ ts) (stack, e) =
        json_stub_parse (separated (map tokens_of vs) @ (TClose # ts))
          ([] # stack, ExpectValueOrClose)"
      using GoSlice.prems(2) by auto
    have "json_stub_parse (separated (map tokens_of vs) @ (TClose # ts))
          ([] # stack, ExpectValueOrClose) =
        json_stub_parse (TClose # ts) ((rev vs @ []) # stack, ExpectCommaOrClose)"
    proof (rule parse_elements)
      fix v ts' stack' e'
      assume "v \<in> set vs" and e': "e' = ExpectValue \<or> e' = ExpectValueOrClose"
      moreover from \<open>v \<in> set vs\<close> collect_map_Inr_member [OF us]
      obtain b where "json_stub_Marshal v = Inr b" by blast
      ultimately show "json_stub_parse (tokens_of v @ ts') (stack', e') =
          json_stub_parse ts' (push_value v stack')"
        using GoSlice.IH by blast
    qed (simp_all add: Cons)
    with opened show ?thesis by simp
  qed
qed auto

lemma json_stub_roundtrip:
  assumes "json_stub_Marshal v = Inr bs"
  shows "json_stub_Unmarshal_interface bs = Inr v"
proof -
  have "json_stub_lex bs = Some (tokens_of v)"
    using lex_Marshal [OF assms, of "[]"] by simp
  moreover have "json_stub_parse (tokens_of v) ([], ExpectValue) = Some v"
    using parse_tokens_of [OF assms, of ExpectValue "[]" "[]"] by simp
  ultimately show ?thesis
    by (simp add: json_stub_Unmarshal_interface_def)
qed

lemma json_stub_decodes_slices: "json_decodes_slices json_stub"
  unfolding json_decodes_slices_def
proof (intro allI impI)
  fix s b
  assume "json_Marshal json_stub (GoSlice s) = Inr b"
  then have enc: "json_stub_Marshal (GoSlice s) = Inr b"
    by (simp add: json_stub_def)
  then obtain ts where ts: "collect (map json_stub_Marshal s) = Inr ts"
    by (auto split: sum.splits)
  have dec: "json_Unmarshal_slice json_stub b = Inr s"
    using json_stub_roundtrip [OF enc]
    by (simp add: json_stub_def json_stub_Unmarshal_slice_def)
  have "\<exists>e. json_Marshal json_stub (s ! i) = Inr e \<and>
          json_Unmarshal_interface json_stub e = Inr (s ! i)" if "i < length s" for i
  proof -
    from that have "s ! i \<in> set s" by simp
    with collect_map_Inr_member [OF ts] obtain e where e: "json_stub_Marshal (s ! i) = Inr e"
      by blast
    with json_stub_roundtrip [OF e] show ?thesis
      by (auto simp: json_stub_def)
  qed
  with dec show "\<exists>s'. json_Unmarshal_slice json_stub b = Inr s' \<and> length s' = length s \<and>
      (\<forall>i<length s. \<exists>e. json_Marshal json_stub (s ! i) = Inr e \<and>
         json_Unmarshal_interface json_stub e = Inr (s' ! i))"
    by auto
qed

section \<open>Properties of package caches\<close>



lemma memcacheCache_SetMultiple_stores:
  assumes "memcacheCache_SetMultiple json m ctx key s st = (None, st')"
  shows "\<exists>bs. json_Marshal json (GoSlice s) = Inr bs \<and>
           memcache_Set (memcache_client m) \<lparr>Key = key, Value = bs\<rparr> st = (None, st')"
  using assms by (auto simp: memcacheCache_SetMultiple_def split: sum.splits)

lemma memcache_Get_after_Set:
  assumes "memcache_get_after_set cl"
      and "memcache_Set cl \<lparr>Key = key, Value = bs\<rparr> st = (None, st')"
  shows "\<exists>resp st''. memcache_Get cl key st' = (Inr resp, st'') \<and> Value resp = bs"
  using assms unfolding memcache_get_after_set_def by fastforce

text \<open>
  When \<open>json.Marshal\<close> rejects the value, \<open>SetSingle\<close> returns that error and leaves
  the store as it was.
\<close>

lemma memcacheCache_SetSingle_marshal_rejects:
  assumes "json_Marshal json v = Inl err"
  shows "memcacheCache_SetSingle json m ctx key v st = (Some err, st)"
  using assms by (simp add: memcacheCache_SetSingle_def)




text \<open>
  C5 (amended). On the redis adapter \<open>GetSingle\<close> hands the stored string to
  \<open>json.Unmarshal\<close> and returns what that returns: the decoded value, or the decoding
  error. It is the memcache adapter whose \<open>GetSingle\<close> returns the stored bytes as they
  are.
\<close>

theorem redis_GetSingle_decodes:
  "(redis_Get (redis_client r) ctx key st = (Inr s, st') \<longrightarrow>
      redisCache_GetSingle json r ctx key st =
        (json_Unmarshal_interface json (bytes_of_string s), st')) \<and>
   (memcache_Get (memcache_client m) key mst = (Inr resp, mst') \<longrightarrow>
      memcacheCache_GetSingle m ctx key mst = (Inr (GoBytes (Value resp)), mst'))"
  by (simp add: redisCache_GetSingle_def memcacheCache_GetSingle_def split: sum.splits)

theorem redis_GetSingle_decodes_witness:
  "redis_Get (redis_client redisCache_stub) Background ''k'' [(''k'', ''[true]'')] =
     (Inr ''[true]'', [(''k'', ''[true]'')]) \<and>
   redisCache_GetSingle json_stub redisCache_stub Background ''k'' [(''k'', ''[true]'')] =
     (Inr (GoSlice [GoBool True]), [(''k'', ''[true]'')]) \<and>
   memcache_Get (memcache_client memcacheCache_stub) ''k'' [(''k'', ''[true]'')] =
     (Inr \<lparr>Key = ''k'', Value = ''[true]''\<rparr>, [(''k'', ''[true]'')]) \<and>
   memcacheCache_GetSingle memcacheCache_stub Background ''k'' [(''k'', ''[true]'')] =
     (Inr (GoBytes ''[true]''), [(''k'', ''[true]'')])"
  using redis_GetSingle_decodes
    [of redisCache_stub Background "''k''" "[(''k'', ''[true]'')]" "''[true]''"
        "[(''k'', ''[true]'')]" json_stub memcacheCache_stub "[(''k'', ''[true]'')]"
        "\<lparr>Key = ''k'', Value = ''[true]''\<rparr>" "[(''k'', ''[true]'')]"]
  by (simp add: redisCache_stub_def redis_stub_def memcacheCache_stub_def memcache_stub_def
      json_stub_def json_stub_Unmarshal_interface_def bytes_of_string_def)

text \<open>
  C5, as stated, fails: after \<open>SetSingle\<close> has stored the string \<open>true\<close> natively, the
  stored bytes are \<open>true\<close> but \<open>GetSingle\<close> returns the boolean they decode to; and
  after \<open>SetSingle\<close> has stored the string \<open>hello\<close>, \<open>GetSingle\<close> returns a decoding
  error and no bytes.
\<close>

theorem redis_GetSingle_raw_counterexample:
  "snd (redisCache_SetSingle redisCache_stub Background ''k'' (GoString ''true'') []) =
     [(''k'', ''true'')] \<and>
   fst (redisCache_GetSingle json_stub redisCache_stub Background ''k'' [(''k'', ''true'')]) =
     Inr (GoBool True) \<and>
   snd (redisCache_SetSingle redisCache_stub Background ''k'' (GoString ''hello'') []) =
     [(''k'', ''hello'')] \<and>
   fst (redisCache_GetSingle json_stub redisCache_stub Background ''k'' [(''k'', ''hello'')]) =
     Inl (Err ''json: invalid character'')"
  by (simp add: redisCache_SetSingle_def redisCache_GetSingle_def redisCache_stub_def
      redis_stub_def json_stub_def json_stub_Unmarshal_interface_def bytes_of_string_def)

text \<open>
  On the memcache adapter a successful \<open>SetMultiple(k, s)\<close> followed by
  \<open>GetMultiple(k)\<close> returns the decoding of the encoding of \<open>s\<close>.
\<close>

lemma memcache_multiple_roundtrip:
  assumes law: "memcache_get_after_set (memcache_client m)"
      and set_ok: "memcacheCache_SetMultiple json m ctx key s st = (None, st')"
  shows "\<exists>bs st''. json_Marshal json (GoSlice s) = Inr bs \<and>
           memcacheCache_GetMultiple json m ctx' key st' = (json_Unmarshal_slice json bs, st'')"
proof -
  from memcacheCache_SetMultiple_stores [OF set_ok] obtain bs where
    bs: "json_Marshal json (GoSlice s) = Inr bs" and
    stored: "memcache_Set (memcache_client m) \<lparr>Key = key, Value = bs\<rparr> st = (None, st')"
    by blast
  from memcache_Get_after_Set [OF law stored] obtain resp st'' where
    got: "memcache_Get (memcache_client m) key st' = (Inr resp, st'')" and
    same: "Value resp = bs"
    by blast
  have "memcacheCache_GetMultiple json m ctx' key st' = (json_Unmarshal_slice json bs, st'')"
    using got same by (simp add: memcacheCache_GetMultiple_def split: sum.splits)
  with bs show ?thesis by blast
qed

text \<open>
  On the redis adapter \<open>SetMultiple\<close> does not marshal: the client receives the slice
  itself, while \<open>GetMultiple\<close> decodes JSON from whatever the client stored.
\<close>

lemma redis_GetMultiple_decodes:
  assumes "redis_Get (redis_client r) ctx key st = (Inr stored, st')"
  shows "redisCache_GetMultiple json r ctx key st =
           (json_Unmarshal_slice json (bytes_of_string stored), st')"
  using assms by (simp add: redisCache_GetMultiple_def split: sum.splits)

text \<open>
  Hence, with a JSON library that decodes an encoded slice element by element, the
  sequence read back on the memcache adapter has the length of the sequence written,
  and its element at each position is the decoding of the encoding of the element
  written at that position.
\<close>

lemma memcache_multiple_same_length_and_order:
  assumes law: "memcache_get_after_set (memcache_client m)"
      and json: "json_decodes_slices json"
      and set_ok: "memcacheCache_SetMultiple json m ctx key s st = (None, st')"
  shows "\<exists>s' st''. memcacheCache_GetMultiple json m ctx' key st' = (Inr s', st'') \<and>
           length s' = length s \<and>
           (\<forall>i<length s. \<exists>e. json_Marshal json (s ! i) = Inr e \<and>
              json_Unmarshal_interface json e = Inr (s' ! i))"
proof -
  from memcache_multiple_roundtrip [OF law set_ok, of ctx'] obtain bs st'' where
    bs: "json_Marshal json (GoSlice s) = Inr bs" and
    got: "memcacheCache_GetMultiple json m ctx' key st' = (json_Unmarshal_slice json bs, st'')"
    by blast
  from json bs obtain s' where
    "json_Unmarshal_slice json bs = Inr s'" "length s' = length s"
    "\<forall>i<length s. \<exists>e. json_Marshal json (s ! i) = Inr e \<and>
       json_Unmarshal_interface json e = Inr (s' ! i)"
    unfolding json_decodes_slices_def by blast
  with got show ?thesis by auto
qed

text \<open>
  With the stand-ins, every sequence that \<open>SetMultiple\<close> stores on the memcache adapter
  is read back as it was written.
\<close>

lemma memcache_stub_multiple_roundtrip:
  assumes "memcacheCache_SetMultiple json_stub memcacheCache_stub ctx key s st = (None, st')"
  shows "memcacheCache_GetMultiple json_stub memcacheCache_stub ctx' key st' = (Inr s, st')"
proof -
  from memcacheCache_SetMultiple_stores [OF assms] obtain bs where
    bs: "json_Marshal json_stub (GoSlice s) = Inr bs" and
    st': "st' = (key, bs) # st"
    by (auto simp: memcacheCache_stub_def memcache_stub_def)
  from bs have "json_stub_Unmarshal_interface bs = Inr (GoSlice s)"
    by (simp add: json_stub_def json_stub_roundtrip)
  then show ?thesis
    by (simp add: st' memcacheCache_GetMultiple_def memcacheCache_stub_def memcache_stub_def
        json_stub_def json_stub_Unmarshal_slice_def)
qed




text \<open>
  C7. The value \<open>NewCache(c)\<close> is again a \<open>Cache\<close>, and each of its four operations is
  the operation of \<open>c\<close>: same result, same effect on the store.
\<close>

theorem NewCache_delegates:
  "SetSingle (NewCache c) = SetSingle c \<and>
   GetSingle (NewCache c) = GetSingle c \<and>
   SetMultiple (NewCache c) = SetMultiple c \<and>
   GetMultiple (NewCache c) = GetMultiple c"
  by (simp add: NewCache_def cacheStruct_Cache_def)

theorem NewCache_delegates_witness:
  "SetSingle (NewCache (memcacheCache_Cache json_stub memcacheCache_stub))
     Background ''k'' (GoBool True) [] = (None, [(''k'', ''true'')]) \<and>
   GetSingle (NewCache (memcacheCache_Cache json_stub memcacheCache_stub))
     Background ''k'' [(''k'', ''true'')] = (Inr (GoBytes ''true''), [(''k'', ''true'')])"
  using NewCache_delegates [of "memcacheCache_Cache json_stub memcacheCache_stub"]
  by (simp add: memcacheCache_Cache_def memcacheCache_SetSingle_def
      memcacheCache_GetSingle_def memcacheCache_stub_def memcache_stub_def json_stub_def)

end
